theory Spec2Isabelle
  imports Complex_Main "HOL-Library.AList"
begin

section \<open>Data model: cells, columns and data frames\<close>

text \<open>
  The notebook works on two pandas data frames, \<^verbatim>\<open>X_train\<close> and \<^verbatim>\<open>X_test\<close>, whose
  categorical columns are object columns read from a CSV file. A cell of such a column
  is a category string or the missing-value marker \<^verbatim>\<open>NaN\<close>; after the encoding loop a
  cell may also hold an integer index.
\<close>

datatype cell = Str string | Num int | NaN

text \<open>\<^verbatim>\<open>Series.isnull()\<close>, cell by cell.\<close>

fun isnull :: "cell \<Rightarrow> bool" where
  "isnull NaN = True"
| "isnull (Str s) = False"
| "isnull (Num i) = False"

text \<open>
  A data frame: its row labels, in row order, and its columns, in column order, each
  column a name with one cell per row.
\<close>

record frame =
  index :: "int list"
  cols :: "(string \<times> cell list) list"

text \<open>\<^verbatim>\<open>df.columns\<close>: the column names, in column order (the schema).\<close>

definition column_names :: "frame \<Rightarrow> string list" where
  "column_names df = map fst (cols df)"

text \<open>
  The exceptions the notebook can raise: pandas' \<^verbatim>\<open>KeyError\<close> for a column name that
  the frame does not have (the specification calls it \<^verbatim>\<open>ColumnNotFoundError\<close>), and the
  \<^verbatim>\<open>ValueError\<close> with which scikit-learn refuses an input.
\<close>

datatype py_error = KeyError string | ValueError

type_synonym outcome = "py_error + unit"

text \<open>\<^verbatim>\<open>df[name]\<close>: the column, or \<^verbatim>\<open>KeyError\<close>.\<close>

definition getitem :: "frame \<Rightarrow> string \<Rightarrow> py_error + cell list" where
  "getitem df name =
     (case map_of (cols df) name of
        None \<Rightarrow> Inl (KeyError name)
      | Some xs \<Rightarrow> Inr xs)"

text \<open>
  \<^verbatim>\<open>df[name] = values\<close>: an existing column is overwritten where it stands, a new one
  is appended after the last column. The row labels stay as they are.
\<close>

definition setitem :: "frame \<Rightarrow> string \<Rightarrow> cell list \<Rightarrow> frame" where
  "setitem df name values = df\<lparr>cols := AList.update name values (cols df)\<rparr>"

text \<open>\<^verbatim>\<open>np.where(cond, x, ys)\<close> with a scalar \<^verbatim>\<open>x\<close>: elementwise choice.\<close>

definition np_where :: "bool list \<Rightarrow> cell \<Rightarrow> cell list \<Rightarrow> cell list" where
  "np_where cond x ys = map (\<lambda>(b, y). if b then x else y) (zip cond ys)"

section \<open>The imputer\<close>

text \<open>
  \<^verbatim>\<open>
  def impute_na(df_train, df_test, variable):
      df_train[variable+'_NA'] = np.where(df_train[variable].isnull(), 'Missing', df_train[variable])
      df_test[variable+'_NA'] = np.where(df_test[variable].isnull(), 'Missing', df_test[variable])
  \<close>
  The function mutates both frames and returns nothing, so the model returns the
  outcome together with both frames as they are when the call ends, normally or by an
  exception. The two frames are distinct objects, as in the notebook.
\<close>

definition impute_na :: "frame \<Rightarrow> frame \<Rightarrow> string \<Rightarrow> outcome \<times> frame \<times> frame" where
  "impute_na df_train df_test variable =
     (case getitem df_train variable of
        Inl e \<Rightarrow> (Inl e, df_train, df_test)
      | Inr xs \<Rightarrow>
          let df_train' =
                setitem df_train (variable @ ''_NA'')
                  (np_where (map isnull xs) (Str ''Missing'') xs)
          in (case getitem df_test variable of
                Inl e \<Rightarrow> (Inl e, df_train', df_test)
              | Inr ys \<Rightarrow>
                  (Inr (), df_train',
                   setitem df_test (variable @ ''_NA'')
                     (np_where (map isnull ys) (Str ''Missing'') ys))))"

section \<open>The encoding loop\<close>

text \<open>
  \<^verbatim>\<open>Series.unique()\<close>: the distinct values in order of appearance. pandas scans the
  column once and appends a value to the result when it has not been seen before
  (all \<^verbatim>\<open>NaN\<close> cells count as one value; the notebook runs the loop on imputed columns,
  which hold none).
\<close>

fun unique_loop :: "cell list \<Rightarrow> cell list \<Rightarrow> cell list" where
  "unique_loop uniques [] = uniques"
| "unique_loop uniques (x # xs) =
     (if x \<in> set uniques then unique_loop uniques xs
      else unique_loop (uniques @ [x]) xs)"

definition unique :: "cell list \<Rightarrow> cell list" where
  "unique xs = unique_loop [] xs"

text \<open>\<^verbatim>\<open>enumerate(ks, n)\<close>.\<close>

fun enumerate_from :: "int \<Rightarrow> 'a list \<Rightarrow> (int \<times> 'a) list" where
  "enumerate_from n [] = []"
| "enumerate_from n (k # ks) = (n, k) # enumerate_from (n + 1) ks"

text \<open>
  \<^verbatim>\<open>labels_dict = {k:i for i, k in enumerate(X_train[col].unique(), 0)}\<close>, for the
  training column \<open>xs\<close>: the comprehension stores the pairs one after the other, a later
  pair overwriting an earlier one with the same key.
\<close>

definition labels_dict :: "cell list \<Rightarrow> (cell \<rightharpoonup> int)" where
  "labels_dict xs = fold (\<lambda>(i, k) d. d(k \<mapsto> i)) (enumerate_from 0 (unique xs)) Map.empty"

text \<open>
  \<^verbatim>\<open>Series.map(d)\<close> with a dictionary: a value that is a key is replaced by its entry,
  any other value becomes \<^verbatim>\<open>NaN\<close>; no exception is raised.
\<close>

definition series_map :: "(cell \<rightharpoonup> int) \<Rightarrow> cell list \<Rightarrow> cell list" where
  "series_map d xs = map (\<lambda>c. case d c of None \<Rightarrow> NaN | Some i \<Rightarrow> Num i) xs"

text \<open>
  The body of the encoding loop, for one column name:
  \<^verbatim>\<open>
      labels_dict = {k:i for i, k in enumerate(X_train[col].unique(), 0)}
      X_train.loc[:, col] = X_train.loc[:, col].map(labels_dict )
      X_test.loc[:, col] = X_test.loc[:, col].map(labels_dict)
  \<close>
  Each assignment writes to a column that its right-hand side has just read, so it
  overwrites that column where it stands.
\<close>

definition encode_column :: "frame \<Rightarrow> frame \<Rightarrow> string \<Rightarrow> outcome \<times> frame \<times> frame" where
  "encode_column X_train X_test col =
     (case getitem X_train col of
        Inl e \<Rightarrow> (Inl e, X_train, X_test)
      | Inr xs \<Rightarrow>
          let d = labels_dict xs;
              X_train' = setitem X_train col (series_map d xs)
          in (case getitem X_test col of
                Inl e \<Rightarrow> (Inl e, X_train', X_test)
              | Inr ys \<Rightarrow> (Inr (), X_train', setitem X_test col (series_map d ys))))"

text \<open>
  \<^verbatim>\<open>for col in [...]:\<close> over the feature columns; an exception ends the loop and leaves
  the frames as they are at that moment.
\<close>

fun encode_loop :: "frame \<Rightarrow> frame \<Rightarrow> string list \<Rightarrow> outcome \<times> frame \<times> frame" where
  "encode_loop X_train X_test [] = (Inr (), X_train, X_test)"
| "encode_loop X_train X_test (col # rest) =
     (case encode_column X_train X_test col of
        (Inl e, X_train', X_test') \<Rightarrow> (Inl e, X_train', X_test')
      | (Inr u, X_train', X_test') \<Rightarrow> encode_loop X_train' X_test' rest)"

section \<open>The regression cell\<close>

text \<open>
  \<^verbatim>\<open>df[[name, ...]]\<close>: the listed columns, or \<^verbatim>\<open>KeyError\<close> when one of them is not a
  column of the frame.
\<close>

fun getitems :: "frame \<Rightarrow> string list \<Rightarrow> py_error + cell list list" where
  "getitems df [] = Inr []"
| "getitems df (name # names) =
     (case getitem df name of
        Inl e \<Rightarrow> Inl e
      | Inr xs \<Rightarrow>
          (case getitems df names of
             Inl e \<Rightarrow> Inl e
           | Inr xss \<Rightarrow> Inr (xs # xss)))"

text \<open>
  scikit-learn converts the cells it is given to floating-point numbers. An integer
  converts; a string converts when Python's \<^verbatim>\<open>float\<close> reads it as a number, which is the
  parameter \<open>py_float\<close>; \<^verbatim>\<open>NaN\<close> is not a finite number.
\<close>

fun to_float :: "(string \<Rightarrow> real option) \<Rightarrow> cell \<Rightarrow> real option" where
  "to_float py_float (Num i) = Some (of_int i)"
| "to_float py_float (Str s) = py_float s"
| "to_float py_float NaN = None"

text \<open>
  \<^verbatim>\<open>sklearn.utils.check_array\<close>, which \<^verbatim>\<open>fit\<close> and \<^verbatim>\<open>predict\<close> run on their input before
  any arithmetic: it raises \<^verbatim>\<open>ValueError\<close> for a cell that is not a finite number, for an
  input without rows and for an input without columns.
\<close>

definition check_array ::
  "(string \<Rightarrow> real option) \<Rightarrow> nat \<Rightarrow> cell list list \<Rightarrow> py_error + real list list" where
  "check_array py_float n_samples A =
     (if (\<exists>c \<in> set (concat A). to_float py_float c = None) \<or> n_samples = 0 \<or> A = []
      then Inl ValueError
      else Inr (map (map (\<lambda>c. the (to_float py_float c))) A))"

text \<open>\<^verbatim>\<open>check_X_y\<close>: the same, and the target must have one value per row.\<close>

definition check_X_y ::
  "(string \<Rightarrow> real option) \<Rightarrow> nat \<Rightarrow> cell list list \<Rightarrow> real list \<Rightarrow>
   py_error + real list list \<times> real list" where
  "check_X_y py_float n_samples A y =
     (case check_array py_float n_samples A of
        Inl e \<Rightarrow> Inl e
      | Inr X \<Rightarrow> if length y \<noteq> n_samples then Inl ValueError else Inr (X, y))"

text \<open>
  \<^verbatim>\<open>linreg.fit(df[features], y)\<close> and \<^verbatim>\<open>linreg.predict(df[features])\<close>. The least-squares
  solver and the prediction are floating-point routines of the library; they are the
  parameters \<open>fit\<close> and \<open>predict\<close>, and \<open>'m\<close> is the type of a fitted model.
\<close>

definition linreg_fit ::
  "(string \<Rightarrow> real option) \<Rightarrow> (real list list \<Rightarrow> real list \<Rightarrow> 'm) \<Rightarrow>
   frame \<Rightarrow> string list \<Rightarrow> real list \<Rightarrow> py_error + 'm" where
  "linreg_fit py_float fit df features y =
     (case getitems df features of
        Inl e \<Rightarrow> Inl e
      | Inr A \<Rightarrow>
          (case check_X_y py_float (length (index df)) A y of
             Inl e \<Rightarrow> Inl e
           | Inr (X, y') \<Rightarrow> Inr (fit X y')))"

definition linreg_predict ::
  "(string \<Rightarrow> real option) \<Rightarrow> ('m \<Rightarrow> real list list \<Rightarrow> real list) \<Rightarrow>
   'm \<Rightarrow> frame \<Rightarrow> string list \<Rightarrow> py_error + real list" where
  "linreg_predict py_float predict linreg df features =
     (case getitems df features of
        Inl e \<Rightarrow> Inl e
      | Inr A \<Rightarrow>
          (case check_array py_float (length (index df)) A of
             Inl e \<Rightarrow> Inl e
           | Inr X \<Rightarrow> Inr (predict linreg X)))"

text \<open>
  \<^verbatim>\<open>mean_squared_error(y_true, y_pred)\<close>: the library refuses two sequences of different
  lengths and an empty one; the average itself is the parameter \<open>mse\<close>.
\<close>

definition mean_squared_error ::
  "(real list \<Rightarrow> real list \<Rightarrow> real) \<Rightarrow> real list \<Rightarrow> real list \<Rightarrow> py_error + real" where
  "mean_squared_error mse y_true y_pred =
     (if length y_true \<noteq> length y_pred \<or> y_true = [] then Inl ValueError
      else Inr (mse y_true y_pred))"

text \<open>What the cell prints: a line of text, or the line that reports an MSE.\<close>

datatype printed = Line string | Mse real

text \<open>
  The regression cell:
  \<^verbatim>\<open>
  linreg = LinearRegression()
  linreg.fit(X_train[[...]], y_train)
  print('Train set random imputation')
  pred = linreg.predict(X_train[[...]])
  print('Linear Regression mse: {}'.format(mean_squared_error(y_train, pred)))
  print('Test set random imputation')
  pred = linreg.predict(X_test[[...]])
  print('Linear Regression mse: {}'.format(mean_squared_error(y_test, pred)))
  \<close>
  It returns the outcome and what has been printed when it ends.
\<close>

definition evaluate_linreg ::
  "(string \<Rightarrow> real option) \<Rightarrow> (real list list \<Rightarrow> real list \<Rightarrow> 'm) \<Rightarrow>
   ('m \<Rightarrow> real list list \<Rightarrow> real list) \<Rightarrow> (real list \<Rightarrow> real list \<Rightarrow> real) \<Rightarrow>
   frame \<Rightarrow> frame \<Rightarrow> real list \<Rightarrow> real list \<Rightarrow> string list \<Rightarrow> outcome \<times> printed list" where
  "evaluate_linreg py_float fit predict mse X_train X_test y_train y_test features =
     (case linreg_fit py_float fit X_train features y_train of
        Inl e \<Rightarrow> (Inl e, [])
      | Inr linreg \<Rightarrow>
          (case linreg_predict py_float predict linreg X_train features of
             Inl e \<Rightarrow> (Inl e, [Line ''Train set random imputation''])
           | Inr pred \<Rightarrow>
               (case mean_squared_error mse y_train pred of
                  Inl e \<Rightarrow> (Inl e, [Line ''Train set random imputation''])
                | Inr m \<Rightarrow>
                    (case linreg_predict py_float predict linreg X_test features of
                       Inl e \<Rightarrow>
                         (Inl e, [Line ''Train set random imputation'', Mse m,
                                  Line ''Test set random imputation''])
                     | Inr pred' \<Rightarrow>
                         (case mean_squared_error mse y_test pred' of
                            Inl e \<Rightarrow>
                              (Inl e, [Line ''Train set random imputation'', Mse m,
                                       Line ''Test set random imputation''])
                          | Inr m' \<Rightarrow>
                              (Inr (), [Line ''Train set random imputation'', Mse m,
                                        Line ''Test set random imputation'', Mse m']))))))"

text \<open>
  The evaluator: the encoding loop, then the regression cell on the frames the loop
  left, over the same feature columns. An exception in the loop ends the run.
\<close>

definition evaluator ::
  "(string \<Rightarrow> real option) \<Rightarrow> (real list list \<Rightarrow> real list \<Rightarrow> 'm) \<Rightarrow>
   ('m \<Rightarrow> real list list \<Rightarrow> real list) \<Rightarrow> (real list \<Rightarrow> real list \<Rightarrow> real) \<Rightarrow>
   frame \<Rightarrow> frame \<Rightarrow> real list \<Rightarrow> real list \<Rightarrow> string list \<Rightarrow>
   outcome \<times> frame \<times> frame \<times> printed list" where
  "evaluator py_float fit predict mse X_train X_test y_train y_test features =
     (case encode_loop X_train X_test features of
        (Inl e, X_train', X_test') \<Rightarrow> (Inl e, X_train', X_test', [])
      | (Inr u, X_train', X_test') \<Rightarrow>
          (case evaluate_linreg py_float fit predict mse X_train' X_test' y_train y_test features of
             (r, out) \<Rightarrow> (r, X_train', X_test', out)))"

text \<open>
  The specification's description of the category index, in its own words: the
  distinct training values are numbered in first-seen order starting at 0, so the index
  of a value is the number of distinct values that occur before its first occurrence.
\<close>

definition first_seen_rank :: "cell list \<Rightarrow> cell \<Rightarrow> int" where
  "first_seen_rank xs c = int (card (set (takeWhile (\<lambda>x. x \<noteq> c) xs)))"

section \<open>Basic facts about frames\<close>

lemma np_where_isnull:
  "np_where (map isnull xs) x xs = map (\<lambda>c. if isnull c then x else c) xs"
  by (induction xs) (simp_all add: np_where_def)

lemma getitem_setitem_same: "getitem (setitem df name values) name = Inr values"
  by (simp add: getitem_def setitem_def update_conv')

lemma getitem_setitem_other:
  "name' \<noteq> name \<Longrightarrow> getitem (setitem df name values) name' = getitem df name'"
  by (simp add: getitem_def setitem_def update_conv')

lemma index_setitem: "index (setitem df name values) = index df"
  by (simp add: setitem_def)

lemma impute_na_present:
  assumes "getitem df_train variable = Inr xs" and "getitem df_test variable = Inr ys"
  shows "impute_na df_train df_test variable =
           (Inr (),
            setitem df_train (variable @ ''_NA'') (map (\<lambda>c. if isnull c then Str ''Missing'' else c) xs),
            setitem df_test (variable @ ''_NA'') (map (\<lambda>c. if isnull c then Str ''Missing'' else c) ys))"
  using assms by (simp add: impute_na_def np_where_isnull)

lemma update_fresh: "k \<notin> fst ` set al \<Longrightarrow> AList.update k v al = al @ [(k, v)]"
  by (induction al) auto

lemma update_keys_present: "k \<in> fst ` set al \<Longrightarrow> map fst (AList.update k v al) = map fst al"
  by (simp add: update_keys)

lemma getitem_absent: "name \<notin> set (column_names df) \<Longrightarrow> getitem df name = Inl (KeyError name)"
  by (simp add: getitem_def column_names_def map_of_eq_None_iff [THEN iffD2])

lemma getitem_present: "name \<in> set (column_names df) \<Longrightarrow> \<exists>xs. getitem df name = Inr xs"
  by (cases "map_of (cols df) name") (auto simp: getitem_def column_names_def map_of_eq_None_iff)

lemma setitem_twice: "setitem (setitem df name vs) name vs = setitem df name vs"
  by (simp add: setitem_def)

lemma impute_na_train_only:
  assumes "getitem df_train variable = Inr xs" and "getitem df_test variable = Inl e"
  shows "impute_na df_train df_test variable =
           (Inl e,
            setitem df_train (variable @ ''_NA'') (map (\<lambda>c. if isnull c then Str ''Missing'' else c) xs),
            df_test)"
  using assms by (simp add: impute_na_def np_where_isnull)

lemma impute_na_train_absent:
  assumes "getitem df_train variable = Inl e"
  shows "impute_na df_train df_test variable = (Inl e, df_train, df_test)"
  using assms by (simp add: impute_na_def)

lemma update_others:
  "filter (\<lambda>p. fst p \<noteq> k) (AList.update k v al) = filter (\<lambda>p. fst p \<noteq> k) al"
  by (induction al) auto

lemma cols_setitem: "cols (setitem df name vs) = AList.update name vs (cols df)"
  by (simp add: setitem_def)

lemma column_names_setitem_present:
  "name \<in> set (column_names df) \<Longrightarrow> column_names (setitem df name vs) = column_names df"
  by (simp add: column_names_def cols_setitem update_keys_present)

lemma cols_setitem_fresh:
  "name \<notin> set (column_names df) \<Longrightarrow> cols (setitem df name vs) = cols df @ [(name, vs)]"
  by (simp add: column_names_def cols_setitem update_fresh)

section \<open>Claims about the imputer\<close>

text \<open>
  C1. Whenever the processed column is present in both frames, the call returns
  normally, and in each frame the derived column named \<^verbatim>\<open>variable + "_NA"\<close> holds, row
  by row, \<^verbatim>\<open>"Missing"\<close> where the original cell is missing and the original cell itself
  otherwise; the original column is still there with its values.
\<close>

theorem impute_na_derived_values:
  assumes "getitem df_train variable = Inr xs" and "getitem df_test variable = Inr ys"
  shows "\<exists>df_train' df_test'.
           impute_na df_train df_test variable = (Inr (), df_train', df_test') \<and>
           getitem df_train' variable = Inr xs \<and>
           getitem df_test' variable = Inr ys \<and>
           getitem df_train' (variable @ ''_NA'') =
             Inr (map (\<lambda>c. if isnull c then Str ''Missing'' else c) xs) \<and>
           getitem df_test' (variable @ ''_NA'') =
             Inr (map (\<lambda>c. if isnull c then Str ''Missing'' else c) ys)"
  using assms
  by (simp add: impute_na_present getitem_setitem_same getitem_setitem_other)

theorem impute_na_derived_values_witness:
  "getitem \<lparr>index = [64, 682, 960], cols = [(''q'', [Str ''Gd'', NaN, Str ''TA''])]\<rparr> ''q''
     = Inr [Str ''Gd'', NaN, Str ''TA''] \<and>
   getitem \<lparr>index = [5, 7], cols = [(''q'', [NaN, Str ''Ex''])]\<rparr> ''q''
     = Inr [NaN, Str ''Ex''] \<and>
   (\<exists>df_train' df_test'.
      impute_na
        \<lparr>index = [64, 682, 960], cols = [(''q'', [Str ''Gd'', NaN, Str ''TA''])]\<rparr>
        \<lparr>index = [5, 7], cols = [(''q'', [NaN, Str ''Ex''])]\<rparr> ''q''
        = (Inr (), df_train', df_test') \<and>
      getitem df_train' ''q'' = Inr [Str ''Gd'', NaN, Str ''TA''] \<and>
      getitem df_test' ''q'' = Inr [NaN, Str ''Ex''] \<and>
      getitem df_train' ''q_NA'' = Inr [Str ''Gd'', Str ''Missing'', Str ''TA''] \<and>
      getitem df_test' ''q_NA'' = Inr [Str ''Missing'', Str ''Ex''])"
  using impute_na_derived_values
    [of "\<lparr>index = [64, 682, 960], cols = [(''q'', [Str ''Gd'', NaN, Str ''TA''])]\<rparr>"
        "''q''" "[Str ''Gd'', NaN, Str ''TA'']"
        "\<lparr>index = [5, 7], cols = [(''q'', [NaN, Str ''Ex''])]\<rparr>"
        "[NaN, Str ''Ex'']"]
  by (simp add: getitem_def)

text \<open>
  C3. Whenever the processed column is present in both frames, the call returns
  normally and no cell of either derived column is missing: each one is the sentinel
  \<^verbatim>\<open>"Missing"\<close> or a non-missing cell of the original column.
\<close>

theorem impute_na_complete:
  assumes "getitem df_train variable = Inr xs" and "getitem df_test variable = Inr ys"
  shows "\<exists>df_train' df_test' ds es.
           impute_na df_train df_test variable = (Inr (), df_train', df_test') \<and>
           getitem df_train' (variable @ ''_NA'') = Inr ds \<and>
           getitem df_test' (variable @ ''_NA'') = Inr es \<and>
           (\<forall>c \<in> set ds. \<not> isnull c \<and> (c = Str ''Missing'' \<or> c \<in> set xs)) \<and>
           (\<forall>c \<in> set es. \<not> isnull c \<and> (c = Str ''Missing'' \<or> c \<in> set ys))"
  using assms
  by (auto simp: impute_na_present getitem_setitem_same)

theorem impute_na_complete_witness:
  "getitem \<lparr>index = [0, 1, 2], cols = [(''q'', [Str ''Gd'', NaN, Str ''TA''])]\<rparr> ''q''
     = Inr [Str ''Gd'', NaN, Str ''TA''] \<and>
   getitem \<lparr>index = [0], cols = [(''q'', [NaN])]\<rparr> ''q'' = Inr [NaN] \<and>
   (\<exists>df_train' df_test' ds es.
      impute_na \<lparr>index = [0, 1, 2], cols = [(''q'', [Str ''Gd'', NaN, Str ''TA''])]\<rparr>
        \<lparr>index = [0], cols = [(''q'', [NaN])]\<rparr> ''q'' = (Inr (), df_train', df_test') \<and>
      getitem df_train' ''q_NA'' = Inr ds \<and>
      getitem df_test' ''q_NA'' = Inr es \<and>
      NaN \<notin> set ds \<and> NaN \<notin> set es)"
proof -
  have tr: "getitem \<lparr>index = [0, 1, 2], cols = [(''q'', [Str ''Gd'', NaN, Str ''TA''])]\<rparr> ''q''
              = Inr [Str ''Gd'', NaN, Str ''TA'']"
    by (simp add: getitem_def)
  have te: "getitem \<lparr>index = [0], cols = [(''q'', [NaN])]\<rparr> ''q'' = Inr [NaN]"
    by (simp add: getitem_def)
  from impute_na_complete [OF tr te] obtain df_train' df_test' ds es where
    r: "impute_na \<lparr>index = [0, 1, 2], cols = [(''q'', [Str ''Gd'', NaN, Str ''TA''])]\<rparr>
          \<lparr>index = [0], cols = [(''q'', [NaN])]\<rparr> ''q'' = (Inr (), df_train', df_test')"
    and ds: "getitem df_train' (''q'' @ ''_NA'') = Inr ds"
    and es: "getitem df_test' (''q'' @ ''_NA'') = Inr es"
    and nd: "\<forall>c \<in> set ds. \<not> isnull c \<and> (c = Str ''Missing'' \<or> c \<in> set [Str ''Gd'', NaN, Str ''TA''])"
    and ne: "\<forall>c \<in> set es. \<not> isnull c \<and> (c = Str ''Missing'' \<or> c \<in> set [NaN])"
    by blast
  from nd have "NaN \<notin> set ds" by auto
  moreover from ne have "NaN \<notin> set es" by auto
  ultimately show ?thesis using tr te r ds es by auto
qed

text \<open>
  C4, as the code has it. Every call, also one that fails, leaves the row labels of
  both frames (their number and their order) and every column other than
  \<^verbatim>\<open>variable + "_NA"\<close> unchanged, the processed column included. When the processed column
  is present in both frames the call returns normally and the column
  \<^verbatim>\<open>variable + "_NA"\<close> of each frame holds the imputed cells, one per cell of the processed
  column: where no column of that name existed, exactly one column is appended after
  the existing ones; where one existed, it is overwritten where it stands with the
  imputed cells and the column names stay as they are.
\<close>

theorem impute_na_frame:
  "\<exists>r df_train' df_test'.
     impute_na df_train df_test variable = (r, df_train', df_test') \<and>
     index df_train' = index df_train \<and> index df_test' = index df_test \<and>
     (\<forall>name. name \<noteq> variable @ ''_NA'' \<longrightarrow>
        getitem df_train' name = getitem df_train name \<and>
        getitem df_test' name = getitem df_test name) \<and>
     filter (\<lambda>p. fst p \<noteq> variable @ ''_NA'') (cols df_train') =
       filter (\<lambda>p. fst p \<noteq> variable @ ''_NA'') (cols df_train) \<and>
     filter (\<lambda>p. fst p \<noteq> variable @ ''_NA'') (cols df_test') =
       filter (\<lambda>p. fst p \<noteq> variable @ ''_NA'') (cols df_test) \<and>
     (\<forall>xs ys. getitem df_train variable = Inr xs \<and> getitem df_test variable = Inr ys \<longrightarrow>
        r = Inr () \<and>
        getitem df_train' (variable @ ''_NA'') =
          Inr (map (\<lambda>c. if isnull c then Str ''Missing'' else c) xs) \<and>
        getitem df_test' (variable @ ''_NA'') =
          Inr (map (\<lambda>c. if isnull c then Str ''Missing'' else c) ys) \<and>
        (if variable @ ''_NA'' \<in> set (column_names df_train)
         then column_names df_train' = column_names df_train
         else cols df_train' = cols df_train @
                [(variable @ ''_NA'', map (\<lambda>c. if isnull c then Str ''Missing'' else c) xs)]) \<and>
        (if variable @ ''_NA'' \<in> set (column_names df_test)
         then column_names df_test' = column_names df_test
         else cols df_test' = cols df_test @
                [(variable @ ''_NA'', map (\<lambda>c. if isnull c then Str ''Missing'' else c) ys)]))"
proof -
  let ?d = "variable @ ''_NA''"
  let ?f = "\<lambda>c. if isnull c then Str ''Missing'' else c"
  have kept: "filter (\<lambda>p. fst p \<noteq> ?d) (cols (setitem df ?d vs)) = filter (\<lambda>p. fst p \<noteq> ?d) (cols df)"
    for df vs
    by (simp add: cols_setitem update_others)
  have shape:
    "if ?d \<in> set (column_names df)
     then column_names (setitem df ?d vs) = column_names df
     else cols (setitem df ?d vs) = cols df @ [(?d, vs)]" for df vs
    by (simp add: column_names_setitem_present cols_setitem_fresh)
  show ?thesis
  proof (cases "getitem df_train variable")
    case (Inl e)
    then show ?thesis
      by (simp add: impute_na_train_absent)
  next
    case train: (Inr xs)
    show ?thesis
    proof (cases "getitem df_test variable")
      case (Inl e)
      with train have "impute_na df_train df_test variable =
          (Inl e, setitem df_train ?d (map ?f xs), df_test)"
        by (rule impute_na_train_only)
      then show ?thesis
        using Inl kept [of df_train "map ?f xs"]
        by (simp add: index_setitem getitem_setitem_other)
    next
      case test: (Inr ys)
      from train test have "impute_na df_train df_test variable =
          (Inr (), setitem df_train ?d (map ?f xs), setitem df_test ?d (map ?f ys))"
        by (rule impute_na_present)
      then show ?thesis
        using train test kept [of df_train "map ?f xs"] kept [of df_test "map ?f ys"]
          shape [of df_train "map ?f xs"] shape [of df_test "map ?f ys"]
        by (simp add: index_setitem getitem_setitem_other getitem_setitem_same)
    qed
  qed
qed

theorem impute_na_frame_witness:
  "getitem \<lparr>index = [64, 682], cols = [(''q'', [Str ''Gd'', NaN])]\<rparr> ''q'' = Inr [Str ''Gd'', NaN] \<and>
   getitem \<lparr>index = [7], cols = [(''q'', [NaN]), (''q_NA'', [Num 0])]\<rparr> ''q'' = Inr [NaN] \<and>
   (\<exists>df_train' df_test'.
      impute_na \<lparr>index = [64, 682], cols = [(''q'', [Str ''Gd'', NaN])]\<rparr>
        \<lparr>index = [7], cols = [(''q'', [NaN]), (''q_NA'', [Num 0])]\<rparr> ''q''
        = (Inr (), df_train', df_test') \<and>
      index df_train' = [64, 682] \<and> index df_test' = [7] \<and>
      getitem df_train' ''q'' = Inr [Str ''Gd'', NaN] \<and>
      getitem df_test' ''q'' = Inr [NaN] \<and>
      cols df_train' = [(''q'', [Str ''Gd'', NaN]), (''q_NA'', [Str ''Gd'', Str ''Missing''])] \<and>
      column_names df_test' = [''q'', ''q_NA''] \<and>
      getitem df_test' ''q_NA'' = Inr [Str ''Missing''])"
proof -
  let ?tr = "\<lparr>index = [64, 682], cols = [(''q'', [Str ''Gd'', NaN])]\<rparr>"
  let ?te = "\<lparr>index = [7], cols = [(''q'', [NaN]), (''q_NA'', [Num 0])]\<rparr>"
  have tr: "getitem ?tr ''q'' = Inr [Str ''Gd'', NaN]"
    by (simp add: getitem_def)
  have te: "getitem ?te ''q'' = Inr [NaN]"
    by (simp add: getitem_def)
  from impute_na_frame [of ?tr ?te "''q''"] obtain r df_train' df_test' where
    run: "impute_na ?tr ?te ''q'' = (r, df_train', df_test')"
    and idx: "index df_train' = index ?tr" "index df_test' = index ?te"
    and others: "\<forall>name. name \<noteq> ''q'' @ ''_NA'' \<longrightarrow>
                   getitem df_train' name = getitem ?tr name \<and>
                   getitem df_test' name = getitem ?te name"
    and present: "\<forall>xs ys. getitem ?tr ''q'' = Inr xs \<and> getitem ?te ''q'' = Inr ys \<longrightarrow>
        r = Inr () \<and>
        getitem df_train' (''q'' @ ''_NA'') =
          Inr (map (\<lambda>c. if isnull c then Str ''Missing'' else c) xs) \<and>
        getitem df_test' (''q'' @ ''_NA'') =
          Inr (map (\<lambda>c. if isnull c then Str ''Missing'' else c) ys) \<and>
        (if ''q'' @ ''_NA'' \<in> set (column_names ?tr)
         then column_names df_train' = column_names ?tr
         else cols df_train' = cols ?tr @
                [(''q'' @ ''_NA'', map (\<lambda>c. if isnull c then Str ''Missing'' else c) xs)]) \<and>
        (if ''q'' @ ''_NA'' \<in> set (column_names ?te)
         then column_names df_test' = column_names ?te
         else cols df_test' = cols ?te @
                [(''q'' @ ''_NA'', map (\<lambda>c. if isnull c then Str ''Missing'' else c) ys)])"
    by blast
  from present [rule_format, of "[Str ''Gd'', NaN]" "[NaN]"] tr te
  have r: "r = Inr ()"
    and c1: "cols df_train' = [(''q'', [Str ''Gd'', NaN]), (''q_NA'', [Str ''Gd'', Str ''Missing''])]"
    and c2: "column_names df_test' = [''q'', ''q_NA'']"
    and c3: "getitem df_test' ''q_NA'' = Inr [Str ''Missing'']"
    by (simp_all add: column_names_def)
  from others [rule_format, of "''q''"] tr te
  have kept: "getitem df_train' ''q'' = Inr [Str ''Gd'', NaN]" "getitem df_test' ''q'' = Inr [NaN]"
    by simp_all
  from idx have i: "index df_train' = [64, 682]" "index df_test' = [7]"
    by simp_all
  have "\<exists>df_train' df_test'.
      impute_na ?tr ?te ''q'' = (Inr (), df_train', df_test') \<and>
      index df_train' = [64, 682] \<and> index df_test' = [7] \<and>
      getitem df_train' ''q'' = Inr [Str ''Gd'', NaN] \<and>
      getitem df_test' ''q'' = Inr [NaN] \<and>
      cols df_train' = [(''q'', [Str ''Gd'', NaN]), (''q_NA'', [Str ''Gd'', Str ''Missing''])] \<and>
      column_names df_test' = [''q'', ''q_NA''] \<and>
      getitem df_test' ''q_NA'' = Inr [Str ''Missing'']"
    using run r i kept c1 c2 c3 by blast
  with tr te show ?thesis
    by (intro conjI)
qed

text \<open>
  C4 as the specification states it fails where \<^verbatim>\<open>variable + "_NA"\<close> is already a
  column: here the training frame has the column \<^verbatim>\<open>q_NA\<close> as the encoding loop left it,
  and a second call of the imputer overwrites it and adds no column.
\<close>

theorem impute_na_frame_counterexample:
  "impute_na
     \<lparr>index = [64, 682], cols = [(''q'', [Str ''Gd'', NaN]), (''q_NA'', [Num 0, Num 1])]\<rparr>
     \<lparr>index = [7], cols = [(''q'', [Str ''Gd'']), (''q_NA'', [Num 0])]\<rparr> ''q''
   = (Inr (),
      \<lparr>index = [64, 682],
         cols = [(''q'', [Str ''Gd'', NaN]), (''q_NA'', [Str ''Gd'', Str ''Missing''])]\<rparr>,
      \<lparr>index = [7], cols = [(''q'', [Str ''Gd'']), (''q_NA'', [Str ''Gd''])]\<rparr>) \<and>
   getitem \<lparr>index = [64, 682],
      cols = [(''q'', [Str ''Gd'', NaN]), (''q_NA'', [Num 0, Num 1])]\<rparr> ''q_NA''
     \<noteq> getitem \<lparr>index = [64, 682],
          cols = [(''q'', [Str ''Gd'', NaN]), (''q_NA'', [Str ''Gd'', Str ''Missing''])]\<rparr> ''q_NA'' \<and>
   length (cols \<lparr>index = [64, 682],
      cols = [(''q'', [Str ''Gd'', NaN]), (''q_NA'', [Str ''Gd'', Str ''Missing''])]\<rparr>)
     = length (cols \<lparr>index = [64, 682],
          cols = [(''q'', [Str ''Gd'', NaN]), (''q_NA'', [Num 0, Num 1])]\<rparr>)"
  by (simp add: impute_na_def getitem_def setitem_def np_where_def)

text \<open>
  C6. When the processed column is absent from the schema of the training frame or of
  the test frame, the call fails with \<^verbatim>\<open>KeyError\<close> for that column name (the
  specification's \<^verbatim>\<open>ColumnNotFoundError\<close>).
\<close>

theorem impute_na_column_not_found:
  assumes "variable \<notin> set (column_names df_train) \<or> variable \<notin> set (column_names df_test)"
  shows "fst (impute_na df_train df_test variable) = Inl (KeyError variable)"
proof (cases "variable \<in> set (column_names df_train)")
  case False
  then have "getitem df_train variable = Inl (KeyError variable)"
    by (rule getitem_absent)
  then show ?thesis
    by (simp add: impute_na_train_absent)
next
  case True
  then obtain xs where xs: "getitem df_train variable = Inr xs"
    using getitem_present by blast
  from True assms have "variable \<notin> set (column_names df_test)"
    by blast
  then have "getitem df_test variable = Inl (KeyError variable)"
    by (rule getitem_absent)
  with xs show ?thesis
    by (simp add: impute_na_train_only)
qed

theorem impute_na_column_not_found_witness:
  "''q'' \<notin> set (column_names \<lparr>index = [0], cols = [(''p'', [NaN])]\<rparr>) \<and>
   fst (impute_na \<lparr>index = [0], cols = [(''p'', [NaN])]\<rparr>
          \<lparr>index = [1], cols = [(''q'', [NaN])]\<rparr> ''q'') = Inl (KeyError ''q'') \<and>
   ''q'' \<notin> set (column_names \<lparr>index = [1], cols = [(''r'', [Str ''Gd''])]\<rparr>) \<and>
   fst (impute_na \<lparr>index = [0], cols = [(''q'', [NaN])]\<rparr>
          \<lparr>index = [1], cols = [(''r'', [Str ''Gd''])]\<rparr> ''q'') = Inl (KeyError ''q'')"
  using impute_na_column_not_found
    [of "''q''" "\<lparr>index = [0], cols = [(''p'', [NaN])]\<rparr>"
        "\<lparr>index = [1], cols = [(''q'', [NaN])]\<rparr>"]
    impute_na_column_not_found
    [of "''q''" "\<lparr>index = [0], cols = [(''q'', [NaN])]\<rparr>"
        "\<lparr>index = [1], cols = [(''r'', [Str ''Gd''])]\<rparr>"]
  by (simp add: column_names_def)

text \<open>
  C8. The imputer reads nothing but its arguments, and a second run on the frames the
  first run left behind ends the same way and leaves both frames, the derived columns
  included, exactly as the first run left them.
\<close>

theorem impute_na_idempotent:
  assumes "impute_na df_train df_test variable = (r, df_train', df_test')"
  shows "impute_na df_train' df_test' variable = (r, df_train', df_test')"
proof (cases "getitem df_train variable")
  case (Inl e)
  with assms show ?thesis
    by (auto simp: impute_na_train_absent)
next
  case train: (Inr xs)
  let ?d = "variable @ ''_NA''"
  let ?ds = "map (\<lambda>c. if isnull c then Str ''Missing'' else c) xs"
  have again: "getitem (setitem df_train ?d ?ds) variable = Inr xs"
    using train by (simp add: getitem_setitem_other)
  show ?thesis
  proof (cases "getitem df_test variable")
    case (Inl e)
    with train assms have res: "r = Inl e" "df_train' = setitem df_train ?d ?ds" "df_test' = df_test"
      by (simp_all add: impute_na_train_only)
    show ?thesis
      unfolding res using again Inl
      by (simp add: impute_na_train_only setitem_twice)
  next
    case test: (Inr ys)
    let ?es = "map (\<lambda>c. if isnull c then Str ''Missing'' else c) ys"
    from train test assms have res: "r = Inr ()" "df_train' = setitem df_train ?d ?ds"
      "df_test' = setitem df_test ?d ?es"
      by (simp_all add: impute_na_present)
    have again': "getitem (setitem df_test ?d ?es) variable = Inr ys"
      using test by (simp add: getitem_setitem_other)
    show ?thesis
      unfolding res using again again'
      by (simp add: impute_na_present setitem_twice)
  qed
qed

theorem impute_na_idempotent_witness:
  "impute_na \<lparr>index = [64, 682], cols = [(''q'', [Str ''Gd'', NaN])]\<rparr>
     \<lparr>index = [7], cols = [(''q'', [NaN])]\<rparr> ''q''
   = (Inr (),
      \<lparr>index = [64, 682], cols = [(''q'', [Str ''Gd'', NaN]), (''q_NA'', [Str ''Gd'', Str ''Missing''])]\<rparr>,
      \<lparr>index = [7], cols = [(''q'', [NaN]), (''q_NA'', [Str ''Missing''])]\<rparr>) \<and>
   impute_na
     \<lparr>index = [64, 682], cols = [(''q'', [Str ''Gd'', NaN]), (''q_NA'', [Str ''Gd'', Str ''Missing''])]\<rparr>
     \<lparr>index = [7], cols = [(''q'', [NaN]), (''q_NA'', [Str ''Missing''])]\<rparr> ''q''
   = (Inr (),
      \<lparr>index = [64, 682], cols = [(''q'', [Str ''Gd'', NaN]), (''q_NA'', [Str ''Gd'', Str ''Missing''])]\<rparr>,
      \<lparr>index = [7], cols = [(''q'', [NaN]), (''q_NA'', [Str ''Missing''])]\<rparr>)"
proof -
  have first: "impute_na \<lparr>index = [64, 682], cols = [(''q'', [Str ''Gd'', NaN])]\<rparr>
     \<lparr>index = [7], cols = [(''q'', [NaN])]\<rparr> ''q''
   = (Inr (),
      \<lparr>index = [64, 682], cols = [(''q'', [Str ''Gd'', NaN]), (''q_NA'', [Str ''Gd'', Str ''Missing''])]\<rparr>,
      \<lparr>index = [7], cols = [(''q'', [NaN]), (''q_NA'', [Str ''Missing''])]\<rparr>)"
    by (simp add: impute_na_def getitem_def setitem_def np_where_def)
  from first impute_na_idempotent [OF first] show ?thesis
    by (rule conjI)
qed

text \<open>
  C10. When the processed column is in the training frame's schema and not in the test
  frame's, the call fails with \<^verbatim>\<open>KeyError\<close> after the first assignment: the training
  frame it leaves behind has the derived column, the test frame is as it was.
\<close>

theorem impute_na_not_atomic:
  assumes "variable \<in> set (column_names df_train)"
    and "variable \<notin> set (column_names df_test)"
  shows "\<exists>xs df_train'.
           getitem df_train variable = Inr xs \<and>
           impute_na df_train df_test variable = (Inl (KeyError variable), df_train', df_test) \<and>
           getitem df_train' (variable @ ''_NA'') =
             Inr (map (\<lambda>c. if isnull c then Str ''Missing'' else c) xs) \<and>
           (if variable @ ''_NA'' \<in> set (column_names df_train)
            then column_names df_train' = column_names df_train
            else column_names df_train' = column_names df_train @ [variable @ ''_NA''])"
proof -
  from assms(1) obtain xs where xs: "getitem df_train variable = Inr xs"
    using getitem_present by blast
  from assms(2) have "getitem df_test variable = Inl (KeyError variable)"
    by (rule getitem_absent)
  with xs have "impute_na df_train df_test variable =
      (Inl (KeyError variable),
       setitem df_train (variable @ ''_NA'') (map (\<lambda>c. if isnull c then Str ''Missing'' else c) xs),
       df_test)"
    by (rule impute_na_train_only)
  moreover have "variable @ ''_NA'' \<notin> set (column_names df_train) \<Longrightarrow>
      column_names (setitem df_train (variable @ ''_NA'') vs) =
        column_names df_train @ [variable @ ''_NA'']" for vs
    using cols_setitem_fresh [of "variable @ ''_NA''" df_train vs]
    by (simp add: column_names_def)
  ultimately show ?thesis
    using xs by (auto simp: getitem_setitem_same column_names_setitem_present)
qed

theorem impute_na_not_atomic_witness:
  "''q'' \<in> set (column_names \<lparr>index = [64, 682], cols = [(''q'', [Str ''Gd'', NaN])]\<rparr>) \<and>
   ''q'' \<notin> set (column_names \<lparr>index = [7], cols = [(''r'', [NaN])]\<rparr>) \<and>
   (\<exists>df_train'.
      impute_na \<lparr>index = [64, 682], cols = [(''q'', [Str ''Gd'', NaN])]\<rparr>
        \<lparr>index = [7], cols = [(''r'', [NaN])]\<rparr> ''q''
      = (Inl (KeyError ''q''), df_train', \<lparr>index = [7], cols = [(''r'', [NaN])]\<rparr>) \<and>
      getitem df_train' ''q_NA'' = Inr [Str ''Gd'', Str ''Missing''] \<and>
      column_names df_train' = [''q'', ''q_NA''])"
  using impute_na_not_atomic
    [of "''q''" "\<lparr>index = [64, 682], cols = [(''q'', [Str ''Gd'', NaN])]\<rparr>"
        "\<lparr>index = [7], cols = [(''r'', [NaN])]\<rparr>"]
  by (simp add: column_names_def getitem_def)

section \<open>Facts about the encoding loop\<close>

lemma unique_loop_prefix: "\<exists>zs. unique_loop acc xs = acc @ zs"
proof (induction xs arbitrary: acc)
  case Nil
  then show ?case by simp
next
  case (Cons x xs)
  show ?case
  proof (cases "x \<in> set acc")
    case True
    with Cons.IH [of acc] show ?thesis by simp
  next
    case False
    from Cons.IH [of "acc @ [x]"] obtain zs where "unique_loop (acc @ [x]) xs = (acc @ [x]) @ zs"
      by blast
    with False show ?thesis by simp
  qed
qed

lemma set_unique_loop: "set (unique_loop acc xs) = set acc \<union> set xs"
  by (induction xs arbitrary: acc) auto

lemma distinct_unique_loop: "distinct acc \<Longrightarrow> distinct (unique_loop acc xs)"
  by (induction xs arbitrary: acc) auto

lemma set_unique: "set (unique xs) = set xs"
  by (simp add: unique_def set_unique_loop)

lemma distinct_unique: "distinct (unique xs)"
  by (simp add: unique_def distinct_unique_loop)

lemma length_unique: "length (unique xs) = card (set xs)"
  using distinct_card [OF distinct_unique, of xs] by (simp add: set_unique)

lemma takeWhile_until: "c \<notin> set acc \<Longrightarrow> takeWhile (\<lambda>x. x \<noteq> c) (acc @ c # zs) = acc"
  by (induction acc) auto

lemma position_unique_loop:
  assumes "distinct acc" and "c \<notin> set acc" and "c \<in> set xs"
  shows "length (takeWhile (\<lambda>x. x \<noteq> c) (unique_loop acc xs)) =
           card (set acc \<union> set (takeWhile (\<lambda>x. x \<noteq> c) xs))"
  using assms
proof (induction xs arbitrary: acc)
  case Nil
  then show ?case by simp
next
  case (Cons x xs)
  show ?case
  proof (cases "x = c")
    case True
    obtain zs where zs: "unique_loop (acc @ [c]) xs = (acc @ [c]) @ zs"
      using unique_loop_prefix by blast
    have "takeWhile (\<lambda>x. x \<noteq> c) (acc @ c # zs) = acc"
      using Cons.prems(2) by (rule takeWhile_until)
    with True Cons.prems zs show ?thesis
      by (simp add: distinct_card)
  next
    case False
    with Cons.prems have inxs: "c \<in> set xs" by simp
    show ?thesis
    proof (cases "x \<in> set acc")
      case True
      with False Cons.IH [OF Cons.prems(1) Cons.prems(2) inxs] show ?thesis
        by (simp add: insert_absorb)
    next
      case notin: False
      have d: "distinct (acc @ [x])" using Cons.prems(1) notin by simp
      have n: "c \<notin> set (acc @ [x])" using Cons.prems(2) False by simp
      from Cons.IH [OF d n inxs] False notin show ?thesis
        by simp
    qed
  qed
qed

lemma position_unique:
  "c \<in> set xs \<Longrightarrow> int (length (takeWhile (\<lambda>x. x \<noteq> c) (unique xs))) = first_seen_rank xs c"
  using position_unique_loop [of "[]" c xs] by (simp add: unique_def first_seen_rank_def)

lemma fold_enumerate:
  "distinct ks \<Longrightarrow>
   fold (\<lambda>(i, k) d. d(k \<mapsto> i)) (enumerate_from n ks) m c =
     (if c \<in> set ks then Some (n + int (length (takeWhile (\<lambda>x. x \<noteq> c) ks))) else m c)"
  by (induction ks arbitrary: n m) auto

lemma labels_dict_rank:
  "labels_dict xs c = (if c \<in> set xs then Some (first_seen_rank xs c) else None)"
  by (simp add: labels_dict_def fold_enumerate distinct_unique set_unique position_unique)

lemma labels_dict_nth:
  assumes "i < length (unique xs)"
  shows "labels_dict xs (unique xs ! i) = Some (int i)"
proof -
  have "takeWhile (\<lambda>x. x \<noteq> unique xs ! i) (unique xs) = take i (unique xs)"
    using assms distinct_unique [of xs]
    by (intro takeWhile_eq_take_P_nth) (auto simp: nth_eq_iff_index_eq)
  with assms show ?thesis
    by (simp add: labels_dict_def fold_enumerate distinct_unique)
qed

lemma series_map_labels:
  "series_map (labels_dict xs) ys =
     map (\<lambda>c. if c \<in> set xs then Num (first_seen_rank xs c) else NaN) ys"
  by (simp add: series_map_def labels_dict_rank)

lemma series_map_labels_train:
  "series_map (labels_dict xs) xs = map (\<lambda>c. Num (first_seen_rank xs c)) xs"
  by (simp add: series_map_labels)

lemma encode_column_present:
  assumes "getitem X_train col = Inr xs" and "getitem X_test col = Inr ys"
  shows "encode_column X_train X_test col =
           (Inr (), setitem X_train col (series_map (labels_dict xs) xs),
            setitem X_test col (series_map (labels_dict xs) ys))"
  using assms by (simp add: encode_column_def Let_def)

lemma series_map_train_cells: "c \<in> set (series_map (labels_dict xs) xs) \<Longrightarrow> \<exists>i. c = Num i"
  by (auto simp: series_map_labels)

lemma series_map_cells: "c \<in> set (series_map d ys) \<Longrightarrow> (\<exists>i. c = Num i) \<or> c = NaN"
  by (auto simp: series_map_def split: option.splits)

lemma encode_loop_Cons_present:
  assumes "getitem X_train col = Inr xs" and "getitem X_test col = Inr ys"
  shows "encode_loop X_train X_test (col # rest) =
           encode_loop (setitem X_train col (series_map (labels_dict xs) xs))
             (setitem X_test col (series_map (labels_dict xs) ys)) rest"
  using assms by (simp add: encode_column_present)

lemma encode_loop_returns:
  assumes "set cs \<subseteq> set (column_names X_train)" and "set cs \<subseteq> set (column_names X_test)"
  shows "fst (encode_loop X_train X_test cs) = Inr ()"
  using assms
proof (induction cs arbitrary: X_train X_test)
  case Nil
  then show ?case by simp
next
  case (Cons col rest)
  from Cons.prems obtain us vs where
    us: "getitem X_train col = Inr us" and vs: "getitem X_test col = Inr vs"
    using getitem_present [of col X_train] getitem_present [of col X_test] by auto
  let ?tr = "setitem X_train col (series_map (labels_dict us) us)"
  let ?te = "setitem X_test col (series_map (labels_dict us) vs)"
  from Cons.prems have present: "col \<in> set (column_names X_train)" "col \<in> set (column_names X_test)"
    by simp_all
  have sub: "set rest \<subseteq> set (column_names ?tr)" "set rest \<subseteq> set (column_names ?te)"
    using Cons.prems present by (simp_all add: column_names_setitem_present)
  have step: "encode_loop X_train X_test (col # rest) = encode_loop ?tr ?te rest"
    using us vs by (rule encode_loop_Cons_present)
  show ?case
    unfolding step by (rule Cons.IH [OF sub])
qed

lemma encode_loop_shape:
  assumes "set cs \<subseteq> set (column_names X_train)" and "set cs \<subseteq> set (column_names X_test)"
  shows "index (fst (snd (encode_loop X_train X_test cs))) = index X_train \<and>
         index (snd (snd (encode_loop X_train X_test cs))) = index X_test \<and>
         column_names (fst (snd (encode_loop X_train X_test cs))) = column_names X_train \<and>
         column_names (snd (snd (encode_loop X_train X_test cs))) = column_names X_test"
  using assms
proof (induction cs arbitrary: X_train X_test)
  case Nil
  then show ?case by simp
next
  case (Cons col rest)
  from Cons.prems obtain us vs where
    us: "getitem X_train col = Inr us" and vs: "getitem X_test col = Inr vs"
    using getitem_present [of col X_train] getitem_present [of col X_test] by auto
  let ?tr = "setitem X_train col (series_map (labels_dict us) us)"
  let ?te = "setitem X_test col (series_map (labels_dict us) vs)"
  from Cons.prems have present: "col \<in> set (column_names X_train)" "col \<in> set (column_names X_test)"
    by simp_all
  have sub: "set rest \<subseteq> set (column_names ?tr)" "set rest \<subseteq> set (column_names ?te)"
    using Cons.prems present by (simp_all add: column_names_setitem_present)
  have step: "encode_loop X_train X_test (col # rest) = encode_loop ?tr ?te rest"
    using us vs by (rule encode_loop_Cons_present)
  show ?case
    unfolding step using Cons.IH [OF sub] present
    by (simp add: column_names_setitem_present index_setitem)
qed

lemma encode_loop_others:
  assumes "set cs \<subseteq> set (column_names X_train)" and "set cs \<subseteq> set (column_names X_test)"
    and "name \<notin> set cs"
  shows "getitem (fst (snd (encode_loop X_train X_test cs))) name = getitem X_train name \<and>
         getitem (snd (snd (encode_loop X_train X_test cs))) name = getitem X_test name"
  using assms
proof (induction cs arbitrary: X_train X_test)
  case Nil
  then show ?case by simp
next
  case (Cons col rest)
  from Cons.prems obtain us vs where
    us: "getitem X_train col = Inr us" and vs: "getitem X_test col = Inr vs"
    using getitem_present [of col X_train] getitem_present [of col X_test] by auto
  let ?tr = "setitem X_train col (series_map (labels_dict us) us)"
  let ?te = "setitem X_test col (series_map (labels_dict us) vs)"
  from Cons.prems have present: "col \<in> set (column_names X_train)" "col \<in> set (column_names X_test)"
    by simp_all
  have sub: "set rest \<subseteq> set (column_names ?tr)" "set rest \<subseteq> set (column_names ?te)"
    using Cons.prems present by (simp_all add: column_names_setitem_present)
  have step: "encode_loop X_train X_test (col # rest) = encode_loop ?tr ?te rest"
    using us vs by (rule encode_loop_Cons_present)
  from Cons.prems have "name \<notin> set rest" "name \<noteq> col"
    by auto
  then show ?case
    unfolding step using Cons.IH [OF sub]
    by (simp add: getitem_setitem_other)
qed

lemma encode_loop_values:
  assumes "set cs \<subseteq> set (column_names X_train)" and "set cs \<subseteq> set (column_names X_test)"
    and "distinct cs" and "col \<in> set cs"
    and "getitem X_train col = Inr xs" and "getitem X_test col = Inr ys"
  shows "getitem (fst (snd (encode_loop X_train X_test cs))) col =
           Inr (series_map (labels_dict xs) xs) \<and>
         getitem (snd (snd (encode_loop X_train X_test cs))) col =
           Inr (series_map (labels_dict xs) ys)"
  using assms
proof (induction cs arbitrary: X_train X_test)
  case Nil
  then show ?case by simp
next
  case (Cons c rest)
  from Cons.prems obtain us vs where
    us: "getitem X_train c = Inr us" and vs: "getitem X_test c = Inr vs"
    using getitem_present [of c X_train] getitem_present [of c X_test] by auto
  let ?tr = "setitem X_train c (series_map (labels_dict us) us)"
  let ?te = "setitem X_test c (series_map (labels_dict us) vs)"
  from Cons.prems have present: "c \<in> set (column_names X_train)" "c \<in> set (column_names X_test)"
    by simp_all
  have sub: "set rest \<subseteq> set (column_names ?tr)" "set rest \<subseteq> set (column_names ?te)"
    using Cons.prems present by (simp_all add: column_names_setitem_present)
  have step: "encode_loop X_train X_test (c # rest) = encode_loop ?tr ?te rest"
    using us vs by (rule encode_loop_Cons_present)
  show ?case
  proof (cases "col = c")
    case True
    with Cons.prems us vs have same: "us = xs" "vs = ys" by simp_all
    from Cons.prems True have "col \<notin> set rest" by simp
    from encode_loop_others [OF sub this] True same show ?thesis
      unfolding step by (simp add: getitem_setitem_same)
  next
    case False
    with Cons.prems have "col \<in> set rest" "distinct rest" by simp_all
    moreover from False Cons.prems have "getitem ?tr col = Inr xs" "getitem ?te col = Inr ys"
      by (simp_all add: getitem_setitem_other)
    ultimately show ?thesis
      unfolding step using Cons.IH [OF sub] by simp
  qed
qed

lemma encode_loop_keeps_indices:
  assumes "set cs \<subseteq> set (column_names X_train)" and "set cs \<subseteq> set (column_names X_test)"
    and "getitem X_train name = Inr xs" and "\<forall>c \<in> set xs. \<exists>i. c = Num i"
    and "getitem X_test name = Inr ys" and "\<forall>c \<in> set ys. (\<exists>i. c = Num i) \<or> c = NaN"
  shows "\<exists>xs' ys'.
           getitem (fst (snd (encode_loop X_train X_test cs))) name = Inr xs' \<and>
           getitem (snd (snd (encode_loop X_train X_test cs))) name = Inr ys' \<and>
           (\<forall>c \<in> set xs'. \<exists>i. c = Num i) \<and>
           (\<forall>c \<in> set ys'. (\<exists>i. c = Num i) \<or> c = NaN)"
  using assms
proof (induction cs arbitrary: X_train X_test xs ys)
  case Nil
  then show ?case by simp
next
  case (Cons c rest)
  from Cons.prems obtain us vs where
    us: "getitem X_train c = Inr us" and vs: "getitem X_test c = Inr vs"
    using getitem_present [of c X_train] getitem_present [of c X_test] by auto
  let ?tr = "setitem X_train c (series_map (labels_dict us) us)"
  let ?te = "setitem X_test c (series_map (labels_dict us) vs)"
  from Cons.prems have present: "c \<in> set (column_names X_train)" "c \<in> set (column_names X_test)"
    by simp_all
  have sub: "set rest \<subseteq> set (column_names ?tr)" "set rest \<subseteq> set (column_names ?te)"
    using Cons.prems present by (simp_all add: column_names_setitem_present)
  have step: "encode_loop X_train X_test (c # rest) = encode_loop ?tr ?te rest"
    using us vs by (rule encode_loop_Cons_present)
  show ?case
  proof (cases "name = c")
    case True
    have a: "getitem ?tr name = Inr (series_map (labels_dict us) us)"
      and b: "getitem ?te name = Inr (series_map (labels_dict us) vs)"
      using True by (simp_all add: getitem_setitem_same)
    have a': "\<forall>c \<in> set (series_map (labels_dict us) us). \<exists>i. c = Num i"
      using series_map_train_cells by blast
    have b': "\<forall>c \<in> set (series_map (labels_dict us) vs). (\<exists>i. c = Num i) \<or> c = NaN"
      using series_map_cells by blast
    show ?thesis
      unfolding step by (rule Cons.IH [OF sub a a' b b'])
  next
    case False
    then have a: "getitem ?tr name = Inr xs" and b: "getitem ?te name = Inr ys"
      using Cons.prems by (simp_all add: getitem_setitem_other)
    show ?thesis
      unfolding step by (rule Cons.IH [OF sub a Cons.prems(4) b Cons.prems(6)])
  qed
qed

lemma encode_loop_indices:
  assumes "set cs \<subseteq> set (column_names X_train)" and "set cs \<subseteq> set (column_names X_test)"
    and "col \<in> set cs"
  shows "\<exists>xs' ys'.
           getitem (fst (snd (encode_loop X_train X_test cs))) col = Inr xs' \<and>
           getitem (snd (snd (encode_loop X_train X_test cs))) col = Inr ys' \<and>
           (\<forall>c \<in> set xs'. \<exists>i. c = Num i) \<and>
           (\<forall>c \<in> set ys'. (\<exists>i. c = Num i) \<or> c = NaN)"
  using assms
proof (induction cs arbitrary: X_train X_test)
  case Nil
  then show ?case by simp
next
  case (Cons c rest)
  from Cons.prems obtain us vs where
    us: "getitem X_train c = Inr us" and vs: "getitem X_test c = Inr vs"
    using getitem_present [of c X_train] getitem_present [of c X_test] by auto
  let ?tr = "setitem X_train c (series_map (labels_dict us) us)"
  let ?te = "setitem X_test c (series_map (labels_dict us) vs)"
  from Cons.prems have present: "c \<in> set (column_names X_train)" "c \<in> set (column_names X_test)"
    by simp_all
  have sub: "set rest \<subseteq> set (column_names ?tr)" "set rest \<subseteq> set (column_names ?te)"
    using Cons.prems present by (simp_all add: column_names_setitem_present)
  have step: "encode_loop X_train X_test (c # rest) = encode_loop ?tr ?te rest"
    using us vs by (rule encode_loop_Cons_present)
  show ?case
  proof (cases "col = c")
    case True
    have a: "getitem ?tr col = Inr (series_map (labels_dict us) us)"
      and b: "getitem ?te col = Inr (series_map (labels_dict us) vs)"
      using True by (simp_all add: getitem_setitem_same)
    have a': "\<forall>c \<in> set (series_map (labels_dict us) us). \<exists>i. c = Num i"
      using series_map_train_cells by blast
    have b': "\<forall>c \<in> set (series_map (labels_dict us) vs). (\<exists>i. c = Num i) \<or> c = NaN"
      using series_map_cells by blast
    show ?thesis
      unfolding step by (rule encode_loop_keeps_indices [OF sub a a' b b'])
  next
    case False
    with Cons.prems have "col \<in> set rest" by simp
    then show ?thesis
      unfolding step by (rule Cons.IH [OF sub])
  qed
qed



section \<open>Facts about the regression cell\<close>

lemma getitems_present:
  "set features \<subseteq> set (column_names df) \<Longrightarrow> \<exists>A. getitems df features = Inr A"
proof (induction features)
  case Nil
  then show ?case by simp
next
  case (Cons name names)
  then obtain xs A where "getitem df name = Inr xs" "getitems df names = Inr A"
    using getitem_present [of name df] by auto
  then show ?case by simp
qed

lemma getitems_member:
  "getitems df features = Inr A \<Longrightarrow> col \<in> set features \<Longrightarrow> getitem df col = Inr xs \<Longrightarrow>
   xs \<in> set A"
  by (induction features arbitrary: A) (auto split: sum.splits)

lemma check_array_error: "check_array py_float n A = Inl e \<Longrightarrow> e = ValueError"
  by (simp add: check_array_def split: if_splits)

lemma check_array_NaN:
  "xs \<in> set A \<Longrightarrow> NaN \<in> set xs \<Longrightarrow> check_array py_float n A = Inl ValueError"
  by (auto simp: check_array_def intro!: bexI [of _ NaN])


lemma check_X_y_error: "check_X_y py_float n A y = Inl e \<Longrightarrow> e = ValueError"
  by (auto simp: check_X_y_def split: sum.splits if_splits dest: check_array_error)

lemma mean_squared_error_error: "mean_squared_error mse y p = Inl e \<Longrightarrow> e = ValueError"
  by (simp add: mean_squared_error_def split: if_splits)

lemma linreg_fit_error:
  "set features \<subseteq> set (column_names df) \<Longrightarrow> linreg_fit py_float fit df features y = Inl e \<Longrightarrow>
   e = ValueError"
  using getitems_present [of features df]
  by (auto simp: linreg_fit_def split: sum.splits dest: check_X_y_error)

lemma linreg_predict_error:
  "set features \<subseteq> set (column_names df) \<Longrightarrow>
   linreg_predict py_float predict m df features = Inl e \<Longrightarrow> e = ValueError"
  using getitems_present [of features df]
  by (auto simp: linreg_predict_def split: sum.splits dest: check_array_error)



lemma linreg_predict_NaN:
  assumes "set features \<subseteq> set (column_names df)" and "col \<in> set features"
    and "getitem df col = Inr xs" and "NaN \<in> set xs"
  shows "linreg_predict py_float predict m df features = Inl ValueError"
proof -
  from assms(1) obtain A where A: "getitems df features = Inr A"
    using getitems_present by blast
  from getitems_member [OF A assms(2,3)] assms(4)
  have "check_array py_float (length (index df)) A = Inl ValueError"
    by (rule check_array_NaN)
  with A show ?thesis
    by (simp add: linreg_predict_def)
qed

lemma evaluate_linreg_test_fails:
  assumes "\<And>m. \<exists>e. linreg_predict py_float predict m X_test features = Inl e"
  shows "\<exists>e out.
           evaluate_linreg py_float fit predict mse X_train X_test y_train y_test features
             = (Inl e, out) \<and>
           (out = [] \<or> out = [Line ''Train set random imputation''] \<or>
            (\<exists>m. out = [Line ''Train set random imputation'', Mse m,
                         Line ''Test set random imputation'']))"
proof (cases "linreg_fit py_float fit X_train features y_train")
  case (Inl e)
  then show ?thesis by (simp add: evaluate_linreg_def)
next
  case fitted: (Inr linreg)
  from assms obtain e where test: "linreg_predict py_float predict linreg X_test features = Inl e"
    by blast
  show ?thesis
  proof (cases "linreg_predict py_float predict linreg X_train features")
    case (Inl e')
    with fitted show ?thesis by (simp add: evaluate_linreg_def)
  next
    case pred: (Inr p)
    show ?thesis
    proof (cases "mean_squared_error mse y_train p")
      case (Inl e')
      with fitted pred show ?thesis by (simp add: evaluate_linreg_def)
    next
      case (Inr m)
      with fitted pred test show ?thesis by (simp add: evaluate_linreg_def)
    qed
  qed
qed


lemma evaluate_linreg_error:
  assumes "set features \<subseteq> set (column_names X_train)"
    and "set features \<subseteq> set (column_names X_test)"
    and "evaluate_linreg py_float fit predict mse X_train X_test y_train y_test features
           = (Inl e, out)"
  shows "e = ValueError"
  using assms(3) linreg_fit_error [OF assms(1)] linreg_predict_error [OF assms(1)]
    linreg_predict_error [OF assms(2)] mean_squared_error_error
  by (fastforce simp: evaluate_linreg_def split: sum.splits)

section \<open>Claims about the encoding loop\<close>

text \<open>
  C2. When the feature columns are distinct names present in both frames, the encoding
  loop returns normally, and for each feature column, with training cells \<open>xs\<close> and
  test cells \<open>ys\<close> before the loop: \<^verbatim>\<open>unique\<close> lists the distinct training values, each
  once; \<^verbatim>\<open>labels_dict\<close> gives the \<open>i\<close>-th of them the index \<open>i\<close>, counting from 0; the
  index of a training value is the number of distinct values that occur before its first
  occurrence in the training column, and a value that does not occur there has no
  entry; after the loop the training column and the test column hold their cells mapped
  by this one mapping. In particular, the training rows
  \<^verbatim>\<open>[{q:"Gd"}, {q:None}, {q:"TA"}]\<close> are imputed to \<^verbatim>\<open>["Gd","Missing","TA"]\<close>, their mapping
  is \<^verbatim>\<open>{"Gd":0,"Missing":1,"TA":2}\<close> and their encoding is \<^verbatim>\<open>[0,1,2]\<close>.
\<close>

theorem encode_loop_first_seen:
  assumes "set features \<subseteq> set (column_names X_train)"
    and "set features \<subseteq> set (column_names X_test)"
    and "distinct features"
  shows "(\<exists>X_train' X_test'.
           encode_loop X_train X_test features = (Inr (), X_train', X_test') \<and>
           (\<forall>col \<in> set features. \<exists>xs ys.
              getitem X_train col = Inr xs \<and> getitem X_test col = Inr ys \<and>
              distinct (unique xs) \<and> set (unique xs) = set xs \<and>
              length (unique xs) = card (set xs) \<and>
              (\<forall>i. i < length (unique xs) \<longrightarrow> labels_dict xs (unique xs ! i) = Some (int i)) \<and>
              (\<forall>c. labels_dict xs c =
                 (if c \<in> set xs then Some (first_seen_rank xs c) else None)) \<and>
              getitem X_train' col = Inr (series_map (labels_dict xs) xs) \<and>
              getitem X_test' col = Inr (series_map (labels_dict xs) ys) \<and>
              series_map (labels_dict xs) xs = map (\<lambda>c. Num (first_seen_rank xs c)) xs \<and>
              series_map (labels_dict xs) ys =
                map (\<lambda>c. if c \<in> set xs then Num (first_seen_rank xs c) else NaN) ys)) \<and>
         impute_na \<lparr>index = [0, 1, 2], cols = [(''q'', [Str ''Gd'', NaN, Str ''TA''])]\<rparr>
             \<lparr>index = [0], cols = [(''q'', [Str ''TA''])]\<rparr> ''q''
           = (Inr (),
              \<lparr>index = [0, 1, 2],
                 cols = [(''q'', [Str ''Gd'', NaN, Str ''TA'']),
                         (''q_NA'', [Str ''Gd'', Str ''Missing'', Str ''TA''])]\<rparr>,
              \<lparr>index = [0], cols = [(''q'', [Str ''TA'']), (''q_NA'', [Str ''TA''])]\<rparr>) \<and>
         labels_dict [Str ''Gd'', Str ''Missing'', Str ''TA'']
           = [Str ''Gd'' \<mapsto> 0, Str ''Missing'' \<mapsto> 1, Str ''TA'' \<mapsto> 2] \<and>
         encode_loop
             \<lparr>index = [0, 1, 2],
                cols = [(''q'', [Str ''Gd'', NaN, Str ''TA'']),
                        (''q_NA'', [Str ''Gd'', Str ''Missing'', Str ''TA''])]\<rparr>
             \<lparr>index = [0], cols = [(''q'', [Str ''TA'']), (''q_NA'', [Str ''TA''])]\<rparr>
             [''q_NA'']
           = (Inr (),
              \<lparr>index = [0, 1, 2],
                 cols = [(''q'', [Str ''Gd'', NaN, Str ''TA'']),
                         (''q_NA'', [Num 0, Num 1, Num 2])]\<rparr>,
              \<lparr>index = [0], cols = [(''q'', [Str ''TA'']), (''q_NA'', [Num 2])]\<rparr>)"
proof -
  let ?R = "encode_loop X_train X_test features"
  have ret: "?R = (Inr (), fst (snd ?R), snd (snd ?R))"
    using encode_loop_returns [OF assms(1,2)] by (simp add: prod_eq_iff)
  have each: "\<exists>xs ys.
      getitem X_train col = Inr xs \<and> getitem X_test col = Inr ys \<and>
      distinct (unique xs) \<and> set (unique xs) = set xs \<and>
      length (unique xs) = card (set xs) \<and>
      (\<forall>i. i < length (unique xs) \<longrightarrow> labels_dict xs (unique xs ! i) = Some (int i)) \<and>
      (\<forall>c. labels_dict xs c = (if c \<in> set xs then Some (first_seen_rank xs c) else None)) \<and>
      getitem (fst (snd ?R)) col = Inr (series_map (labels_dict xs) xs) \<and>
      getitem (snd (snd ?R)) col = Inr (series_map (labels_dict xs) ys) \<and>
      series_map (labels_dict xs) xs = map (\<lambda>c. Num (first_seen_rank xs c)) xs \<and>
      series_map (labels_dict xs) ys =
        map (\<lambda>c. if c \<in> set xs then Num (first_seen_rank xs c) else NaN) ys"
    if col: "col \<in> set features" for col
  proof -
    from col assms obtain xs ys where
      xs: "getitem X_train col = Inr xs" and ys: "getitem X_test col = Inr ys"
      using getitem_present [of col X_train] getitem_present [of col X_test] by auto
    note vals = encode_loop_values [OF assms col xs ys]
    show ?thesis
      apply (rule exI [of _ xs], rule exI [of _ ys])
      using xs ys vals distinct_unique [of xs] set_unique [of xs] length_unique [of xs]
        labels_dict_nth [of _ xs] labels_dict_rank [of xs]
        series_map_labels [of xs xs] series_map_labels [of xs ys]
      by (intro conjI allI impI) simp_all
  qed
  have general: "\<exists>X_train' X_test'.
           encode_loop X_train X_test features = (Inr (), X_train', X_test') \<and>
           (\<forall>col \<in> set features. \<exists>xs ys.
              getitem X_train col = Inr xs \<and> getitem X_test col = Inr ys \<and>
              distinct (unique xs) \<and> set (unique xs) = set xs \<and>
              length (unique xs) = card (set xs) \<and>
              (\<forall>i. i < length (unique xs) \<longrightarrow> labels_dict xs (unique xs ! i) = Some (int i)) \<and>
              (\<forall>c. labels_dict xs c =
                 (if c \<in> set xs then Some (first_seen_rank xs c) else None)) \<and>
              getitem X_train' col = Inr (series_map (labels_dict xs) xs) \<and>
              getitem X_test' col = Inr (series_map (labels_dict xs) ys) \<and>
              series_map (labels_dict xs) xs = map (\<lambda>c. Num (first_seen_rank xs c)) xs \<and>
              series_map (labels_dict xs) ys =
                map (\<lambda>c. if c \<in> set xs then Num (first_seen_rank xs c) else NaN) ys)"
    apply (rule exI [of _ "fst (snd ?R)"], rule exI [of _ "snd (snd ?R)"])
    apply (rule conjI)
     apply (rule ret)
    using each apply blast
    done
  have imputed: "impute_na \<lparr>index = [0, 1, 2], cols = [(''q'', [Str ''Gd'', NaN, Str ''TA''])]\<rparr>
             \<lparr>index = [0], cols = [(''q'', [Str ''TA''])]\<rparr> ''q''
           = (Inr (),
              \<lparr>index = [0, 1, 2],
                 cols = [(''q'', [Str ''Gd'', NaN, Str ''TA'']),
                         (''q_NA'', [Str ''Gd'', Str ''Missing'', Str ''TA''])]\<rparr>,
              \<lparr>index = [0], cols = [(''q'', [Str ''TA'']), (''q_NA'', [Str ''TA''])]\<rparr>)"
    by (simp add: impute_na_def getitem_def setitem_def np_where_def)
  have dict: "labels_dict [Str ''Gd'', Str ''Missing'', Str ''TA'']
           = [Str ''Gd'' \<mapsto> 0, Str ''Missing'' \<mapsto> 1, Str ''TA'' \<mapsto> 2]"
    by (simp add: labels_dict_def unique_def)
  have encoded: "encode_loop
             \<lparr>index = [0, 1, 2],
                cols = [(''q'', [Str ''Gd'', NaN, Str ''TA'']),
                        (''q_NA'', [Str ''Gd'', Str ''Missing'', Str ''TA''])]\<rparr>
             \<lparr>index = [0], cols = [(''q'', [Str ''TA'']), (''q_NA'', [Str ''TA''])]\<rparr>
             [''q_NA'']
           = (Inr (),
              \<lparr>index = [0, 1, 2],
                 cols = [(''q'', [Str ''Gd'', NaN, Str ''TA'']),
                         (''q_NA'', [Num 0, Num 1, Num 2])]\<rparr>,
              \<lparr>index = [0], cols = [(''q'', [Str ''TA'']), (''q_NA'', [Num 2])]\<rparr>)"
    by (simp add: encode_column_def getitem_def setitem_def dict series_map_def)
  from general imputed dict encoded show ?thesis
    by (intro conjI)
qed

theorem encode_loop_first_seen_witness:
  "set [''a_NA'', ''b_NA''] \<subseteq> set (column_names
      \<lparr>index = [0, 1, 2, 3],
         cols = [(''a_NA'', [Str ''Gd'', Str ''Missing'', Str ''Gd'', Str ''TA'']),
                 (''b_NA'', [Str ''Po'', Str ''Po'', Str ''Missing'', Str ''Po''])]\<rparr>) \<and>
   set [''a_NA'', ''b_NA''] \<subseteq> set (column_names
      \<lparr>index = [0, 1],
         cols = [(''a_NA'', [Str ''TA'', Str ''Ex'']), (''b_NA'', [Str ''Missing'', Str ''Po''])]\<rparr>) \<and>
   distinct [''a_NA'', ''b_NA''] \<and>
   (\<exists>X_train' X_test'.
      encode_loop
        \<lparr>index = [0, 1, 2, 3],
           cols = [(''a_NA'', [Str ''Gd'', Str ''Missing'', Str ''Gd'', Str ''TA'']),
                   (''b_NA'', [Str ''Po'', Str ''Po'', Str ''Missing'', Str ''Po''])]\<rparr>
        \<lparr>index = [0, 1],
           cols = [(''a_NA'', [Str ''TA'', Str ''Ex'']), (''b_NA'', [Str ''Missing'', Str ''Po''])]\<rparr>
        [''a_NA'', ''b_NA'']
        = (Inr (), X_train', X_test') \<and>
      getitem X_train' ''a_NA'' = Inr [Num 0, Num 1, Num 0, Num 2] \<and>
      getitem X_test' ''a_NA'' = Inr [Num 2, NaN] \<and>
      getitem X_train' ''b_NA'' = Inr [Num 0, Num 0, Num 1, Num 0] \<and>
      getitem X_test' ''b_NA'' = Inr [Num 1, Num 0])"
proof -
  let ?as = "[Str ''Gd'', Str ''Missing'', Str ''Gd'', Str ''TA'']"
  let ?bs = "[Str ''Po'', Str ''Po'', Str ''Missing'', Str ''Po'']"
  let ?tr = "\<lparr>index = [0, 1, 2, 3], cols = [(''a_NA'', ?as), (''b_NA'', ?bs)]\<rparr>"
  let ?te = "\<lparr>index = [0, 1],
    cols = [(''a_NA'', [Str ''TA'', Str ''Ex'']), (''b_NA'', [Str ''Missing'', Str ''Po''])]\<rparr>"
  have h1: "set [''a_NA'', ''b_NA''] \<subseteq> set (column_names ?tr)"
    by (simp add: column_names_def)
  have h2: "set [''a_NA'', ''b_NA''] \<subseteq> set (column_names ?te)"
    by (simp add: column_names_def)
  have h3: "distinct [''a_NA'', ''b_NA'']"
    by simp
  from encode_loop_first_seen [OF h1 h2 h3] obtain X_train' X_test' where
    run: "encode_loop ?tr ?te [''a_NA'', ''b_NA''] = (Inr (), X_train', X_test')"
    and each: "\<forall>col \<in> set [''a_NA'', ''b_NA'']. \<exists>xs ys.
        getitem ?tr col = Inr xs \<and> getitem ?te col = Inr ys \<and>
        distinct (unique xs) \<and> set (unique xs) = set xs \<and>
        length (unique xs) = card (set xs) \<and>
        (\<forall>i. i < length (unique xs) \<longrightarrow> labels_dict xs (unique xs ! i) = Some (int i)) \<and>
        (\<forall>c. labels_dict xs c = (if c \<in> set xs then Some (first_seen_rank xs c) else None)) \<and>
        getitem X_train' col = Inr (series_map (labels_dict xs) xs) \<and>
        getitem X_test' col = Inr (series_map (labels_dict xs) ys) \<and>
        series_map (labels_dict xs) xs = map (\<lambda>c. Num (first_seen_rank xs c)) xs \<and>
        series_map (labels_dict xs) ys =
          map (\<lambda>c. if c \<in> set xs then Num (first_seen_rank xs c) else NaN) ys"
    by blast
  from each have a: "getitem X_train' ''a_NA'' = Inr (map (\<lambda>c. Num (first_seen_rank ?as c)) ?as)"
    "getitem X_test' ''a_NA'' =
       Inr (map (\<lambda>c. if c \<in> set ?as then Num (first_seen_rank ?as c) else NaN) [Str ''TA'', Str ''Ex''])"
    by (auto simp: getitem_def)
  from each have b: "getitem X_train' ''b_NA'' = Inr (map (\<lambda>c. Num (first_seen_rank ?bs c)) ?bs)"
    "getitem X_test' ''b_NA'' =
       Inr (map (\<lambda>c. if c \<in> set ?bs then Num (first_seen_rank ?bs c) else NaN)
              [Str ''Missing'', Str ''Po''])"
    by (auto simp: getitem_def)
  have ranks: "first_seen_rank ?as (Str ''Gd'') = 0" "first_seen_rank ?as (Str ''Missing'') = 1"
    "first_seen_rank ?as (Str ''TA'') = 2" "first_seen_rank ?bs (Str ''Po'') = 0"
    "first_seen_rank ?bs (Str ''Missing'') = 1"
    by (simp_all add: first_seen_rank_def card_insert_if)
  from a ranks have a': "getitem X_train' ''a_NA'' = Inr [Num 0, Num 1, Num 0, Num 2]"
    "getitem X_test' ''a_NA'' = Inr [Num 2, NaN]"
    by simp_all
  from b ranks have b': "getitem X_train' ''b_NA'' = Inr [Num 0, Num 0, Num 1, Num 0]"
    "getitem X_test' ''b_NA'' = Inr [Num 1, Num 0]"
    by simp_all
  have "\<exists>X_train' X_test'.
      encode_loop ?tr ?te [''a_NA'', ''b_NA''] = (Inr (), X_train', X_test') \<and>
      getitem X_train' ''a_NA'' = Inr [Num 0, Num 1, Num 0, Num 2] \<and>
      getitem X_test' ''a_NA'' = Inr [Num 2, NaN] \<and>
      getitem X_train' ''b_NA'' = Inr [Num 0, Num 0, Num 1, Num 0] \<and>
      getitem X_test' ''b_NA'' = Inr [Num 1, Num 0]"
    using run a' b' by blast
  with h1 h2 h3 show ?thesis
    by (intro conjI)
qed

text \<open>
  C9, as the code has it. When the feature columns are present in both frames, the
  encoding loop returns normally and has overwritten them where they stand: row labels
  and column names of both frames are as before, every column that is not a feature
  column is unchanged, and no feature column holds a string any more. When the feature
  columns are distinct names, each training cell has been replaced with the index of
  its value, and each test cell with the index of its value where the value occurs in
  the training column and with \<^verbatim>\<open>NaN\<close> where it does not.
\<close>

theorem encode_loop_in_place:
  assumes "set features \<subseteq> set (column_names X_train)"
    and "set features \<subseteq> set (column_names X_test)"
  shows "\<exists>X_train' X_test'.
           encode_loop X_train X_test features = (Inr (), X_train', X_test') \<and>
           index X_train' = index X_train \<and> index X_test' = index X_test \<and>
           column_names X_train' = column_names X_train \<and>
           column_names X_test' = column_names X_test \<and>
           (\<forall>name. name \<notin> set features \<longrightarrow>
              getitem X_train' name = getitem X_train name \<and>
              getitem X_test' name = getitem X_test name) \<and>
           (\<forall>col \<in> set features. \<exists>xs' ys'.
              getitem X_train' col = Inr xs' \<and> getitem X_test' col = Inr ys' \<and>
              (\<forall>c \<in> set xs'. \<exists>i. c = Num i) \<and>
              (\<forall>c \<in> set ys'. (\<exists>i. c = Num i) \<or> c = NaN)) \<and>
           (distinct features \<longrightarrow>
              (\<forall>col \<in> set features. \<exists>xs ys.
                 getitem X_train col = Inr xs \<and> getitem X_test col = Inr ys \<and>
                 getitem X_train' col = Inr (map (\<lambda>c. Num (first_seen_rank xs c)) xs) \<and>
                 getitem X_test' col =
                   Inr (map (\<lambda>c. if c \<in> set xs then Num (first_seen_rank xs c) else NaN) ys)))"
proof -
  let ?R = "encode_loop X_train X_test features"
  have ret: "?R = (Inr (), fst (snd ?R), snd (snd ?R))"
    using encode_loop_returns [OF assms] by (simp add: prod_eq_iff)
  note shape = encode_loop_shape [OF assms]
  have others: "\<forall>name. name \<notin> set features \<longrightarrow>
      getitem (fst (snd ?R)) name = getitem X_train name \<and>
      getitem (snd (snd ?R)) name = getitem X_test name"
    using encode_loop_others [OF assms] by blast
  have encoded: "\<forall>col \<in> set features. \<exists>xs' ys'.
      getitem (fst (snd ?R)) col = Inr xs' \<and> getitem (snd (snd ?R)) col = Inr ys' \<and>
      (\<forall>c \<in> set xs'. \<exists>i. c = Num i) \<and>
      (\<forall>c \<in> set ys'. (\<exists>i. c = Num i) \<or> c = NaN)"
    using encode_loop_indices [OF assms] by blast
  have exact: "\<exists>xs ys.
      getitem X_train col = Inr xs \<and> getitem X_test col = Inr ys \<and>
      getitem (fst (snd ?R)) col = Inr (map (\<lambda>c. Num (first_seen_rank xs c)) xs) \<and>
      getitem (snd (snd ?R)) col =
        Inr (map (\<lambda>c. if c \<in> set xs then Num (first_seen_rank xs c) else NaN) ys)"
    if d: "distinct features" and col: "col \<in> set features" for col
  proof -
    from col assms obtain xs ys where
      xs: "getitem X_train col = Inr xs" and ys: "getitem X_test col = Inr ys"
      using getitem_present [of col X_train] getitem_present [of col X_test] by auto
    from encode_loop_values [OF assms d col xs ys] xs ys show ?thesis
      by (simp add: series_map_labels)
  qed
  then have exact': "distinct features \<longrightarrow>
      (\<forall>col \<in> set features. \<exists>xs ys.
         getitem X_train col = Inr xs \<and> getitem X_test col = Inr ys \<and>
         getitem (fst (snd ?R)) col = Inr (map (\<lambda>c. Num (first_seen_rank xs c)) xs) \<and>
         getitem (snd (snd ?R)) col =
           Inr (map (\<lambda>c. if c \<in> set xs then Num (first_seen_rank xs c) else NaN) ys))"
    by blast
  show ?thesis
    apply (rule exI [of _ "fst (snd ?R)"])
    apply (rule exI [of _ "snd (snd ?R)"])
    apply (intro conjI)
           apply (rule ret)
          apply (simp add: shape)
         apply (simp add: shape)
        apply (simp add: shape)
       apply (simp add: shape)
      apply (rule others)
     apply (rule encoded)
    apply (rule exact')
    done
qed

theorem encode_loop_in_place_witness:
  "set [''q_NA''] \<subseteq> set (column_names
      \<lparr>index = [64, 682, 960],
         cols = [(''q'', [Str ''Gd'', NaN, Str ''Gd'']),
                 (''q_NA'', [Str ''Gd'', Str ''Missing'', Str ''Gd''])]\<rparr>) \<and>
   set [''q_NA''] \<subseteq> set (column_names
      \<lparr>index = [7, 8], cols = [(''q'', [NaN, Str ''TA'']), (''q_NA'', [Str ''Missing'', Str ''TA''])]\<rparr>) \<and>
   distinct [''q_NA''] \<and>
   (\<exists>X_train' X_test'.
      encode_loop
        \<lparr>index = [64, 682, 960],
           cols = [(''q'', [Str ''Gd'', NaN, Str ''Gd'']),
                   (''q_NA'', [Str ''Gd'', Str ''Missing'', Str ''Gd''])]\<rparr>
        \<lparr>index = [7, 8], cols = [(''q'', [NaN, Str ''TA'']), (''q_NA'', [Str ''Missing'', Str ''TA''])]\<rparr>
        [''q_NA'']
        = (Inr (), X_train', X_test') \<and>
      index X_train' = [64, 682, 960] \<and> index X_test' = [7, 8] \<and>
      column_names X_train' = [''q'', ''q_NA''] \<and> column_names X_test' = [''q'', ''q_NA''] \<and>
      getitem X_train' ''q'' = Inr [Str ''Gd'', NaN, Str ''Gd''] \<and>
      getitem X_test' ''q'' = Inr [NaN, Str ''TA''] \<and>
      getitem X_train' ''q_NA'' = Inr [Num 0, Num 1, Num 0] \<and>
      getitem X_test' ''q_NA'' = Inr [Num 1, NaN])"
proof -
  let ?xs = "[Str ''Gd'', Str ''Missing'', Str ''Gd'']"
  let ?tr = "\<lparr>index = [64, 682, 960],
    cols = [(''q'', [Str ''Gd'', NaN, Str ''Gd'']), (''q_NA'', ?xs)]\<rparr>"
  let ?te = "\<lparr>index = [7, 8],
    cols = [(''q'', [NaN, Str ''TA'']), (''q_NA'', [Str ''Missing'', Str ''TA''])]\<rparr>"
  have h1: "set [''q_NA''] \<subseteq> set (column_names ?tr)"
    by (simp add: column_names_def)
  have h2: "set [''q_NA''] \<subseteq> set (column_names ?te)"
    by (simp add: column_names_def)
  have h3: "distinct [''q_NA'']"
    by simp
  from encode_loop_in_place [OF h1 h2] obtain X_train' X_test' where
    run: "encode_loop ?tr ?te [''q_NA''] = (Inr (), X_train', X_test')"
    and idx: "index X_train' = index ?tr" "index X_test' = index ?te"
    and names: "column_names X_train' = column_names ?tr" "column_names X_test' = column_names ?te"
    and others: "\<forall>name. name \<notin> set [''q_NA''] \<longrightarrow>
              getitem X_train' name = getitem ?tr name \<and>
              getitem X_test' name = getitem ?te name"
    and exact: "distinct [''q_NA''] \<longrightarrow>
      (\<forall>col \<in> set [''q_NA'']. \<exists>xs ys.
         getitem ?tr col = Inr xs \<and> getitem ?te col = Inr ys \<and>
         getitem X_train' col = Inr (map (\<lambda>c. Num (first_seen_rank xs c)) xs) \<and>
         getitem X_test' col =
           Inr (map (\<lambda>c. if c \<in> set xs then Num (first_seen_rank xs c) else NaN) ys))"
    by blast
  from exact h3 have enc: "getitem X_train' ''q_NA'' = Inr (map (\<lambda>c. Num (first_seen_rank ?xs c)) ?xs)"
    "getitem X_test' ''q_NA'' =
       Inr (map (\<lambda>c. if c \<in> set ?xs then Num (first_seen_rank ?xs c) else NaN)
              [Str ''Missing'', Str ''TA''])"
    by (auto simp: getitem_def)
  have ranks: "first_seen_rank ?xs (Str ''Gd'') = 0" "first_seen_rank ?xs (Str ''Missing'') = 1"
    by (simp_all add: first_seen_rank_def)
  from enc ranks have enc': "getitem X_train' ''q_NA'' = Inr [Num 0, Num 1, Num 0]"
    "getitem X_test' ''q_NA'' = Inr [Num 1, NaN]"
    by simp_all
  from others [rule_format, of "''q''"] have raw: "getitem X_train' ''q'' = Inr [Str ''Gd'', NaN, Str ''Gd'']"
    "getitem X_test' ''q'' = Inr [NaN, Str ''TA'']"
    by (simp_all add: getitem_def)
  from idx have i: "index X_train' = [64, 682, 960]" "index X_test' = [7, 8]"
    by simp_all
  from names have n: "column_names X_train' = [''q'', ''q_NA'']"
    "column_names X_test' = [''q'', ''q_NA'']"
    by (simp_all add: column_names_def)
  have "\<exists>X_train' X_test'.
      encode_loop ?tr ?te [''q_NA''] = (Inr (), X_train', X_test') \<and>
      index X_train' = [64, 682, 960] \<and> index X_test' = [7, 8] \<and>
      column_names X_train' = [''q'', ''q_NA''] \<and> column_names X_test' = [''q'', ''q_NA''] \<and>
      getitem X_train' ''q'' = Inr [Str ''Gd'', NaN, Str ''Gd''] \<and>
      getitem X_test' ''q'' = Inr [NaN, Str ''TA''] \<and>
      getitem X_train' ''q_NA'' = Inr [Num 0, Num 1, Num 0] \<and>
      getitem X_test' ''q_NA'' = Inr [Num 1, NaN]"
    using run i n raw enc' by blast
  with h1 h2 h3 show ?thesis
    by (intro conjI)
qed

text \<open>
  C9 as the specification states it fails for a test value that the training column
  does not contain: the string \<^verbatim>\<open>"TA"\<close> of the test frame is replaced with \<^verbatim>\<open>NaN\<close>, not
  with an integer index.
\<close>

theorem encode_loop_in_place_counterexample:
  "getitem \<lparr>index = [7], cols = [(''q_NA'', [Str ''TA''])]\<rparr> ''q_NA'' = Inr [Str ''TA''] \<and>
   encode_loop \<lparr>index = [64, 682], cols = [(''q_NA'', [Str ''Gd'', Str ''Missing''])]\<rparr>
     \<lparr>index = [7], cols = [(''q_NA'', [Str ''TA''])]\<rparr> [''q_NA'']
   = (Inr (),
      \<lparr>index = [64, 682], cols = [(''q_NA'', [Num 0, Num 1])]\<rparr>,
      \<lparr>index = [7], cols = [(''q_NA'', [NaN])]\<rparr>)"
  by (simp add: encode_column_def getitem_def setitem_def labels_dict_def unique_def
      series_map_def)

section \<open>Claims about the evaluator\<close>

text \<open>
  C5. When the feature columns are distinct names present in both frames and a row of
  the test frame holds, in a feature column, a value that the training column does not
  contain, the evaluator fails with \<^verbatim>\<open>ValueError\<close> (the failure the specification calls
  \<^verbatim>\<open>UnseenCategoryError\<close>): the encoding loop has written \<^verbatim>\<open>NaN\<close>, not an index, for that
  value, the library refuses the test input, and no MSE of the test frame is printed.
  This holds whatever the solver, the prediction and the average compute.
\<close>

theorem evaluator_unseen_category:
  assumes "set features \<subseteq> set (column_names X_train)"
    and "set features \<subseteq> set (column_names X_test)"
    and "distinct features" and "col \<in> set features"
    and "getitem X_train col = Inr xs" and "getitem X_test col = Inr ys"
    and "c \<in> set ys" and "c \<notin> set xs"
  shows "\<exists>X_train' X_test' out.
           evaluator py_float fit predict mse X_train X_test y_train y_test features
             = (Inl ValueError, X_train', X_test', out) \<and>
           getitem X_test' col =
             Inr (map (\<lambda>v. if v \<in> set xs then Num (first_seen_rank xs v) else NaN) ys) \<and>
           (out = [] \<or> out = [Line ''Train set random imputation''] \<or>
            (\<exists>m. out = [Line ''Train set random imputation'', Mse m,
                         Line ''Test set random imputation'']))"
proof -
  let ?R = "encode_loop X_train X_test features"
  let ?tr = "fst (snd ?R)"
  let ?te = "snd (snd ?R)"
  let ?ys' = "map (\<lambda>v. if v \<in> set xs then Num (first_seen_rank xs v) else NaN) ys"
  have ret: "?R = (Inr (), ?tr, ?te)"
    using encode_loop_returns [OF assms(1,2)] by (simp add: prod_eq_iff)
  have names: "set features \<subseteq> set (column_names ?tr)" "set features \<subseteq> set (column_names ?te)"
    using encode_loop_shape [OF assms(1,2)] assms(1,2) by simp_all
  have col: "getitem ?te col = Inr ?ys'"
    using encode_loop_values [OF assms(1,2,3,4,5,6)] by (simp add: series_map_labels)
  have "NaN \<in> set ?ys'"
    using assms(7,8) by (auto simp: image_iff intro!: bexI [of _ c])
  with names(2) assms(4) col
  have test: "linreg_predict py_float predict m ?te features = Inl ValueError" for m
    by (rule linreg_predict_NaN)
  then have "\<And>m. \<exists>e. linreg_predict py_float predict m ?te features = Inl e"
    by blast
  from evaluate_linreg_test_fails [OF this] obtain e out where
    run: "evaluate_linreg py_float fit predict mse ?tr ?te y_train y_test features = (Inl e, out)"
    and out: "out = [] \<or> out = [Line ''Train set random imputation''] \<or>
      (\<exists>m. out = [Line ''Train set random imputation'', Mse m,
                   Line ''Test set random imputation''])"
    by blast
  from evaluate_linreg_error [OF names run] have e: "e = ValueError" .
  have "evaluator py_float fit predict mse X_train X_test y_train y_test features
          = (Inl ValueError, ?tr, ?te, out)"
    unfolding evaluator_def using ret run e
    by (metis (no_types, lifting) case_prod_conv sum.case(2))
  with col out show ?thesis
    by blast
qed

theorem evaluator_unseen_category_witness:
  "set [''q_NA''] \<subseteq> set (column_names \<lparr>index = [0, 1], cols = [(''q_NA'', [Str ''Gd'', Str ''Missing''])]\<rparr>) \<and>
   set [''q_NA''] \<subseteq> set (column_names \<lparr>index = [0], cols = [(''q_NA'', [Str ''TA''])]\<rparr>) \<and>
   distinct [''q_NA''] \<and> ''q_NA'' \<in> set [''q_NA''] \<and>
   getitem \<lparr>index = [0, 1], cols = [(''q_NA'', [Str ''Gd'', Str ''Missing''])]\<rparr> ''q_NA''
     = Inr [Str ''Gd'', Str ''Missing''] \<and>
   getitem \<lparr>index = [0], cols = [(''q_NA'', [Str ''TA''])]\<rparr> ''q_NA'' = Inr [Str ''TA''] \<and>
   Str ''TA'' \<in> set [Str ''TA''] \<and> Str ''TA'' \<notin> set [Str ''Gd'', Str ''Missing''] \<and>
   (\<exists>X_train' X_test' out.
      evaluator (\<lambda>s. None) (\<lambda>X y. ()) (\<lambda>m X. map (\<lambda>c. 0) (hd X)) (\<lambda>y p. 0)
        \<lparr>index = [0, 1], cols = [(''q_NA'', [Str ''Gd'', Str ''Missing''])]\<rparr>
        \<lparr>index = [0], cols = [(''q_NA'', [Str ''TA''])]\<rparr> [1, 2] [3] [''q_NA'']
        = (Inl ValueError, X_train', X_test', out) \<and>
      getitem X_test' ''q_NA'' = Inr [NaN])"
proof -
  let ?tr = "\<lparr>index = [0, 1], cols = [(''q_NA'', [Str ''Gd'', Str ''Missing''])]\<rparr>"
  let ?te = "\<lparr>index = [0], cols = [(''q_NA'', [Str ''TA''])]\<rparr>"
  have h1: "set [''q_NA''] \<subseteq> set (column_names ?tr)"
    by (simp add: column_names_def)
  have h2: "set [''q_NA''] \<subseteq> set (column_names ?te)"
    by (simp add: column_names_def)
  have h3: "distinct [''q_NA'']" and h4: "''q_NA'' \<in> set [''q_NA'']"
    by simp_all
  have h5: "getitem ?tr ''q_NA'' = Inr [Str ''Gd'', Str ''Missing'']"
    by (simp add: getitem_def)
  have h6: "getitem ?te ''q_NA'' = Inr [Str ''TA'']"
    by (simp add: getitem_def)
  have h7: "Str ''TA'' \<in> set [Str ''TA'']" and h8: "Str ''TA'' \<notin> set [Str ''Gd'', Str ''Missing'']"
    by simp_all
  from evaluator_unseen_category [OF h1 h2 h3 h4 h5 h6 h7 h8,
      of "\<lambda>s. None" "\<lambda>X y. ()" "\<lambda>m X. map (\<lambda>c. 0) (hd X)" "\<lambda>y p. 0" "[1, 2]" "[3]"]
  have "\<exists>X_train' X_test' out.
      evaluator (\<lambda>s. None) (\<lambda>X y. ()) (\<lambda>m X. map (\<lambda>c. 0) (hd X)) (\<lambda>y p. 0)
        ?tr ?te [1, 2] [3] [''q_NA''] = (Inl ValueError, X_train', X_test', out) \<and>
      getitem X_test' ''q_NA'' = Inr [NaN]"
    by auto
  with h1 h2 h3 h4 h5 h6 h7 h8 show ?thesis
    by (intro conjI)
qed



end
